theory Spec2Isabelle
  imports Complex_Main "HOL-Library.AList"
begin

section \<open>Python values used by the funding DSL\<close>

text \<open>
  Strings are lists of 8-bit characters (code points 0 to 255).  Exceptions are values:
  \<open>ParseError None\<close> is the parser's own \<open>ParseError("No funding block found")\<close>,
  \<open>ParseError (Some e)\<close> is the \<open>ParseError\<close> that \<open>parse_text\<close> raises from a
  caught exception \<open>e\<close>.
\<close>

datatype error = ValueError | OverflowError | ZeroDivisionError | ParseError "error option"

text \<open>
  A Python \<open>float\<close>: a finite value, an infinity or not-a-number.  Finite values are kept
  exact (binary rounding of finite results is outside the model); there is no signed zero.
\<close>

datatype pyfloat = Fin real | PInf | NInf | NaN

fun float_lt :: "pyfloat \<Rightarrow> pyfloat \<Rightarrow> bool" where
  "float_lt NaN b = False"
| "float_lt a NaN = False"
| "float_lt (Fin a) (Fin b) = (a < b)"
| "float_lt (Fin a) PInf = True"
| "float_lt (Fin a) NInf = False"
| "float_lt PInf b = False"
| "float_lt NInf (Fin b) = True"
| "float_lt NInf PInf = True"
| "float_lt NInf NInf = False"

fun float_mul :: "pyfloat \<Rightarrow> pyfloat \<Rightarrow> pyfloat" where
  "float_mul NaN b = NaN"
| "float_mul a NaN = NaN"
| "float_mul (Fin a) (Fin b) = Fin (a * b)"
| "float_mul (Fin a) PInf = (if a = 0 then NaN else if 0 < a then PInf else NInf)"
| "float_mul (Fin a) NInf = (if a = 0 then NaN else if 0 < a then NInf else PInf)"
| "float_mul PInf (Fin b) = (if b = 0 then NaN else if 0 < b then PInf else NInf)"
| "float_mul NInf (Fin b) = (if b = 0 then NaN else if 0 < b then NInf else PInf)"
| "float_mul PInf PInf = PInf"
| "float_mul PInf NInf = NInf"
| "float_mul NInf PInf = NInf"
| "float_mul NInf NInf = PInf"

text \<open>Python's \<open>a / b\<close> on floats raises \<open>ZeroDivisionError\<close> exactly when \<open>b == 0\<close>.\<close>

fun float_truediv :: "pyfloat \<Rightarrow> pyfloat \<Rightarrow> error + pyfloat" where
  "float_truediv a (Fin b) =
     (if b = 0 then Inl ZeroDivisionError
      else Inr (case a of Fin x \<Rightarrow> Fin (x / b)
                | PInf \<Rightarrow> (if 0 < b then PInf else NInf)
                | NInf \<Rightarrow> (if 0 < b then NInf else PInf)
                | NaN \<Rightarrow> NaN))"
| "float_truediv a NaN = Inr NaN"
| "float_truediv (Fin x) b = Inr (Fin 0)"
| "float_truediv a b = Inr NaN"

text \<open>Python's \<open>min(a, b)\<close> keeps \<open>a\<close> unless \<open>b < a\<close>.\<close>

definition py_min :: "pyfloat \<Rightarrow> pyfloat \<Rightarrow> pyfloat" where
  "py_min a b = (if float_lt b a then b else a)"

text \<open>Truth value of a float: everything but zero is true.\<close>

definition float_truthy :: "pyfloat \<Rightarrow> bool" where
  "float_truthy x = (x \<noteq> Fin 0)"

text \<open>\<open>int(x)\<close> truncates towards zero and raises on an infinity or a NaN.\<close>

fun py_int :: "pyfloat \<Rightarrow> error + int" where
  "py_int (Fin x) = Inr (if 0 \<le> x then \<lfloor>x\<rfloor> else \<lceil>x\<rceil>)"
| "py_int NaN = Inl ValueError"
| "py_int x = Inl OverflowError"

text \<open>\<open>sep.join(xs)\<close>, \<open>s.startswith(p)\<close> and \<open>s.split(c)[0]\<close>.\<close>

fun py_join :: "string \<Rightarrow> string list \<Rightarrow> string" where
  "py_join sep [] = []"
| "py_join sep [x] = x"
| "py_join sep (x # y # ys) = x @ sep @ py_join sep (y # ys)"

definition startswith :: "string \<Rightarrow> string \<Rightarrow> bool" where
  "startswith s p = (take (length p) s = p)"

definition split_first :: "char \<Rightarrow> string \<Rightarrow> string" where
  "split_first c s = takeWhile (\<lambda>x. x \<noteq> c) s"

section \<open>The metamodel (metamodel/funding_metamodel.py)\<close>

datatype FundingPlatform =
  GITHUB_SPONSORS | PATREON | OPEN_COLLECTIVE | KO_FI | BUY_ME_A_COFFEE | LIBERAPAY
  | PAYPAL | TIDELIFT | ISSUEHUNT | COMMUNITY_BRIDGE | POLAR | THANKS_DEV | CUSTOM

fun platform_value :: "FundingPlatform \<Rightarrow> string" where
  "platform_value GITHUB_SPONSORS = ''github''"
| "platform_value PATREON = ''patreon''"
| "platform_value OPEN_COLLECTIVE = ''open_collective''"
| "platform_value KO_FI = ''ko_fi''"
| "platform_value BUY_ME_A_COFFEE = ''buy_me_a_coffee''"
| "platform_value LIBERAPAY = ''liberapay''"
| "platform_value PAYPAL = ''paypal''"
| "platform_value TIDELIFT = ''tidelift''"
| "platform_value ISSUEHUNT = ''issuehunt''"
| "platform_value COMMUNITY_BRIDGE = ''community_bridge''"
| "platform_value POLAR = ''polar''"
| "platform_value THANKS_DEV = ''thanks_dev''"
| "platform_value CUSTOM = ''custom''"

datatype FundingType = ONE_TIME | RECURRING | BOTH

datatype CurrencyType = USD | EUR | GBP | CAD | AUD

record FundingAmount =
  amount_value :: pyfloat
  currency :: CurrencyType

record Beneficiary =
  ben_name :: string
  ben_email :: "string option"
  github_username :: "string option"
  website :: "string option"
  ben_description :: "string option"

record FundingTier =
  tier_name :: string
  tier_amount :: FundingAmount
  tier_description :: "string option"
  benefits :: "string list"
  max_sponsors :: "int option"
  tier_is_active :: bool

text \<open>A \<open>datetime\<close> built by \<open>strptime\<close> with the format \<open>%Y-%m-%d\<close>: time of day is midnight.\<close>

record datetime =
  year :: nat
  month :: nat
  day :: nat

record FundingGoal =
  goal_name :: string
  target_amount :: FundingAmount
  goal_description :: "string option"
  deadline :: "datetime option"
  current_amount :: FundingAmount
  is_reached :: bool

text \<open>
  \<open>is_active\<close> is declared \<open>bool\<close>, but nothing checks what the constructor is given: the
  field holds whatever the caller passes, \<open>None\<close> included, hence the option.
\<close>

record FundingSource =
  platform :: FundingPlatform
  username :: string
  funding_type :: FundingType
  is_active :: "bool option"
  custom_url :: "string option"
  platform_specific_config :: "(string \<times> string) list"

record FundingConfiguration =
  project_name :: string
  description :: "string option"
  beneficiaries :: "Beneficiary list"
  funding_sources :: "FundingSource list"
  tiers :: "FundingTier list"
  goals :: "FundingGoal list"
  preferred_currency :: CurrencyType
  min_amount :: "FundingAmount option"
  max_amount :: "FundingAmount option"

text \<open>The \<open>add_*\<close> methods append to the list they name.\<close>

definition add_beneficiary :: "FundingConfiguration \<Rightarrow> Beneficiary \<Rightarrow> FundingConfiguration" where
  "add_beneficiary config beneficiary = config\<lparr>beneficiaries := beneficiaries config @ [beneficiary]\<rparr>"

definition add_funding_source :: "FundingConfiguration \<Rightarrow> FundingSource \<Rightarrow> FundingConfiguration" where
  "add_funding_source config source = config\<lparr>funding_sources := funding_sources config @ [source]\<rparr>"

definition add_tier :: "FundingConfiguration \<Rightarrow> FundingTier \<Rightarrow> FundingConfiguration" where
  "add_tier config tier = config\<lparr>tiers := tiers config @ [tier]\<rparr>"

definition add_goal :: "FundingConfiguration \<Rightarrow> FundingGoal \<Rightarrow> FundingConfiguration" where
  "add_goal config goal = config\<lparr>goals := goals config @ [goal]\<rparr>"

subsection \<open>FundingGoal.progress_percentage\<close>

definition progress_percentage :: "FundingGoal \<Rightarrow> error + pyfloat" where
  "progress_percentage goal =
     (if amount_value (target_amount goal) = Fin 0 then Inr (Fin 0)
      else (case float_truediv (amount_value (current_amount goal)) (amount_value (target_amount goal)) of
              Inl e \<Rightarrow> Inl e
            | Inr q \<Rightarrow> Inr (py_min (float_mul q (Fin 100)) (Fin 100))))"

subsection \<open>FundingModelValidator.validate_configuration\<close>

definition valid_platforms :: "string list" where
  "valid_platforms = [''npm'', ''pypi'', ''rubygems'', ''maven'', ''packagist'', ''nuget'']"

definition tidelift_format_error :: string where
  "tidelift_format_error =
     ''Tidelift username must be in format 'platform-name/package-name' (e.g., 'npm/package-name')''"

definition tidelift_platform_error :: string where
  "tidelift_platform_error =
     ''Tidelift platform name must be one of: '' @ py_join '', '' valid_platforms"

definition thanks_dev_error :: string where
  "thanks_dev_error = ''Thanks.dev username must be in format 'u/gh/username'' @ [CHR 0x27]"

definition tier_names_error :: string where
  "tier_names_error = ''Funding tier names must be unique''"

definition goal_names_error :: string where
  "goal_names_error = ''Funding goal names must be unique''"

text \<open>The body of the loop over the funding sources: the messages one source adds.\<close>

definition validate_source :: "FundingSource \<Rightarrow> string list" where
  "validate_source source =
     (if username source = [] then [''Username is required for '' @ platform_value (platform source)]
      else [])
     @ (if platform source = CUSTOM \<and> (custom_url source = None \<or> custom_url source = Some [])
        then [''Custom URL is required for custom platforms''] else [])
     @ (if platform source = TIDELIFT then
          (if CHR ''/'' \<notin> set (username source) then [tidelift_format_error]
           else (let platform_name = split_first (CHR ''/'') (username source)
                 in if platform_name \<notin> set valid_platforms then [tidelift_platform_error] else []))
        else [])
     @ (if platform source = THANKS_DEV then
          (if \<not> startswith (username source) ''u/gh/''
           then [thanks_dev_error] else [])
        else [])"

definition validate_configuration :: "FundingConfiguration \<Rightarrow> string list" where
  "validate_configuration config =
     (let errors = [];
          errors = errors @ (if project_name config = [] then [''Project name is required''] else []);
          errors = errors @ (if beneficiaries config = []
                             then [''At least one beneficiary is required''] else []);
          errors = errors @ (if funding_sources config = []
                             then [''At least one funding source is required''] else []);
          errors = foldl (\<lambda>errors source. errors @ validate_source source) errors
                     (funding_sources config);
          tier_names = map tier_name (tiers config);
          errors = errors @ (if length tier_names \<noteq> card (set tier_names)
                             then [tier_names_error] else []);
          goal_names = map goal_name (goals config);
          errors = errors @ (if length goal_names \<noteq> card (set goal_names)
                             then [goal_names_error] else [])
      in errors)"

section \<open>The textual parser (textual/funding_dsl_parser.py)\<close>

subsection \<open>Regular expressions\<close>

text \<open>
  The character classes \<open>\s\<close>, \<open>\d\<close> and \<open>[A-Z]\<close> of Python's \<open>re\<close> on code points
  below 256.
\<close>

definition is_space :: "char \<Rightarrow> bool" where
  "is_space c = ((of_char c :: nat) \<in> {9, 10, 11, 12, 13, 28, 29, 30, 31, 32, 133, 160})"

definition is_digit :: "char \<Rightarrow> bool" where
  "is_digit c = (48 \<le> (of_char c :: nat) \<and> (of_char c :: nat) \<le> 57)"

definition is_upper :: "char \<Rightarrow> bool" where
  "is_upper c = (65 \<le> (of_char c :: nat) \<and> (of_char c :: nat) \<le> 90)"

text \<open>
  A pattern is a function that matches at the start of a string and returns the captured
  groups with the rest of the string.  Every pattern of the parser is a sequence of literals,
  greedy character-class runs that the next element cannot overlap, and lazy runs up to a
  closing delimiter, so at a given start there is at most one way to match.
\<close>

type_synonym 'g pattern = "string \<Rightarrow> ('g \<times> string) option"

text \<open>A literal, \<open>\s+\<close>, \<open>\s*\<close>, \<open>"([^"]+)"\<close> and \<open>([class]+)\<close>.\<close>

definition lit :: "string \<Rightarrow> string \<Rightarrow> string option" where
  "lit p s = (if take (length p) s = p then Some (drop (length p) s) else None)"

definition spaces1 :: "string \<Rightarrow> string option" where
  "spaces1 s = (case s of [] \<Rightarrow> None
                | c # cs \<Rightarrow> if is_space c then Some (dropWhile is_space cs) else None)"

definition spaces0 :: "string \<Rightarrow> string" where
  "spaces0 s = dropWhile is_space s"

definition quoted :: "string pattern" where
  "quoted s = (case s of [] \<Rightarrow> None
               | c # cs \<Rightarrow>
                   if c \<noteq> CHR 0x22 then None
                   else (let v = takeWhile (\<lambda>x. x \<noteq> CHR 0x22) cs;
                             r = dropWhile (\<lambda>x. x \<noteq> CHR 0x22) cs
                         in if v = [] \<or> r = [] then None else Some (v, tl r)))"

definition run1 :: "(char \<Rightarrow> bool) \<Rightarrow> string pattern" where
  "run1 P s = (let v = takeWhile P s in if v = [] then None else Some (v, dropWhile P s))"

text \<open>\<open>(.*?)c\<close> with DOTALL: everything up to the first \<open>c\<close>, which must be there.\<close>

definition lazy_until :: "char \<Rightarrow> string pattern" where
  "lazy_until c s = (let r = dropWhile (\<lambda>x. x \<noteq> c) s
                     in if r = [] then None else Some (takeWhile (\<lambda>x. x \<noteq> c) s, tl r))"

text \<open>\<open>KW\s+"([^"]+)"\s*\{\<close>: the opening of a named block.\<close>

definition re_named_open :: "string \<Rightarrow> string pattern" where
  "re_named_open kw s =
     Option.bind (lit kw s) (\<lambda>s1.
     Option.bind (spaces1 s1) (\<lambda>s2.
     Option.bind (quoted s2) (\<lambda>(name, s3).
     Option.bind (lit ''{'' (spaces0 s3)) (\<lambda>s4. Some (name, s4)))))"

text \<open>\<open>KW\s*\{\<close>: the opening of a block.\<close>

definition re_block_open :: "string \<Rightarrow> unit pattern" where
  "re_block_open kw s =
     Option.bind (lit kw s) (\<lambda>s1.
     Option.bind (lit ''{'' (spaces0 s1)) (\<lambda>s2. Some ((), s2)))"

text \<open>\<open>KW\s+"([^"]+)"\<close>, \<open>KW\s+([A-Z]+)\<close>, \<open>KW\s+([\d.]+)\<close> and \<open>KW\s+(true|false)\<close>.\<close>

definition re_string_property :: "string \<Rightarrow> string pattern" where
  "re_string_property kw s =
     Option.bind (lit kw s) (\<lambda>s1. Option.bind (spaces1 s1) quoted)"

definition re_keyword_property :: "string \<Rightarrow> string pattern" where
  "re_keyword_property kw s =
     Option.bind (lit kw s) (\<lambda>s1. Option.bind (spaces1 s1) (run1 is_upper))"

definition re_number_property :: "string \<Rightarrow> string pattern" where
  "re_number_property kw s =
     Option.bind (lit kw s) (\<lambda>s1.
     Option.bind (spaces1 s1) (run1 (\<lambda>c. is_digit c \<or> c = CHR ''.'')))"

definition re_boolean_property :: "string \<Rightarrow> string pattern" where
  "re_boolean_property kw s =
     Option.bind (lit kw s) (\<lambda>s1.
     Option.bind (spaces1 s1) (\<lambda>s2.
       case lit ''true'' s2 of Some s3 \<Rightarrow> Some (''true'', s3)
       | None \<Rightarrow> (case lit ''false'' s2 of Some s3 \<Rightarrow> Some (''false'', s3) | None \<Rightarrow> None)))"

text \<open>\<open>KW\s+([\d.]+)\s+([A-Z]+)\<close>: an amount with its currency.\<close>

definition re_amount :: "string \<Rightarrow> (string \<times> string) pattern" where
  "re_amount kw s =
     Option.bind (lit kw s) (\<lambda>s1.
     Option.bind (spaces1 s1) (\<lambda>s2.
     Option.bind (run1 (\<lambda>c. is_digit c \<or> c = CHR ''.'') s2) (\<lambda>(v, s3).
     Option.bind (spaces1 s3) (\<lambda>s4.
     Option.bind (run1 is_upper s4) (\<lambda>(cur, s5). Some ((v, cur), s5))))))"

text \<open>\<open>config\s*\{(.*?)\}\<close> and \<open>KW\s*\[(.*?)\]\<close>, both with DOTALL.\<close>

definition re_config :: "string pattern" where
  "re_config s =
     Option.bind (lit ''config'' s) (\<lambda>s1.
     Option.bind (lit ''{'' (spaces0 s1)) (lazy_until (CHR ''}'')))"

definition re_string_list :: "string \<Rightarrow> string pattern" where
  "re_string_list kw s =
     Option.bind (lit kw s) (\<lambda>s1.
     Option.bind (lit ''['' (spaces0 s1)) (lazy_until (CHR '']'')))"

text \<open>\<open>"([^"]+)"\s+"([^"]+)"\<close>: a key and its value.\<close>

definition re_key_value :: "(string \<times> string) pattern" where
  "re_key_value s =
     Option.bind (quoted s) (\<lambda>(k, s1).
     Option.bind (spaces1 s1) (\<lambda>s2.
     Option.bind (quoted s2) (\<lambda>(v, s3). Some ((k, v), s3))))"

text \<open>
  \<open>re.search\<close>: the match at the leftmost start that has one, as its groups and its end
  offset (\<open>match.end()\<close>).
\<close>

fun re_search :: "'g pattern \<Rightarrow> string \<Rightarrow> ('g \<times> nat) option" where
  "re_search r [] = (case r [] of None \<Rightarrow> None | Some (g, rest) \<Rightarrow> Some (g, 0))"
| "re_search r (c # cs) =
     (case r (c # cs) of
        Some (g, rest) \<Rightarrow> Some (g, length (c # cs) - length rest)
      | None \<Rightarrow> (case re_search r cs of None \<Rightarrow> None | Some (g, e) \<Rightarrow> Some (g, Suc e)))"

text \<open>
  \<open>re.finditer\<close>: the groups of the successive matches, each search starting where the
  previous match ended (one character further after an empty match).
\<close>

function re_finditer :: "'g pattern \<Rightarrow> string \<Rightarrow> 'g list" where
  "re_finditer r [] = []"
| "re_finditer r (c # cs) =
     (case r (c # cs) of
        Some (g, rest) \<Rightarrow> g # re_finditer r (if length rest < length (c # cs) then rest else cs)
      | None \<Rightarrow> re_finditer r cs)"
  by pat_completeness auto
termination
  by (relation "measure (\<lambda>(r, s). length s)") auto

text \<open>\<open>re.sub(pattern, '', text)\<close>: every match removed, left to right.\<close>

function re_sub_empty :: "'g pattern \<Rightarrow> string \<Rightarrow> string" where
  "re_sub_empty r [] = []"
| "re_sub_empty r (c # cs) =
     (case r (c # cs) of
        Some (g, rest) \<Rightarrow>
          if length rest < length (c # cs) then re_sub_empty r rest else c # re_sub_empty r cs
      | None \<Rightarrow> c # re_sub_empty r cs)"
  by pat_completeness auto
termination
  by (relation "measure (\<lambda>(r, s). length s)") auto

text \<open>
  \<open>//.*?$\<close> with MULTILINE (the dot stops at a newline, where \<open>$\<close> matches) and
  \<open>/\*.*?\*/\<close> with DOTALL.
\<close>

definition re_line_comment :: "unit pattern" where
  "re_line_comment s =
     Option.bind (lit ''//'' s) (\<lambda>s1. Some ((), dropWhile (\<lambda>c. c \<noteq> CHR 0x0A) s1))"

fun after_first :: "string \<Rightarrow> string \<Rightarrow> string option" where
  "after_first p [] = (if p = [] then Some [] else None)"
| "after_first p (c # cs) =
     (case lit p (c # cs) of Some rest \<Rightarrow> Some rest | None \<Rightarrow> after_first p cs)"

definition re_block_comment :: "unit pattern" where
  "re_block_comment s =
     Option.bind (lit ''/*'' s) (\<lambda>s1. Option.bind (after_first ''*/'' s1) (\<lambda>s2. Some ((), s2)))"

definition remove_comments :: "string \<Rightarrow> string" where
  "remove_comments text = re_sub_empty re_block_comment (re_sub_empty re_line_comment text)"

subsection \<open>Conversions of matched text\<close>

text \<open>
  \<open>float(s)\<close> for the strings the parser converts, which are runs of digits and dots: at most
  one dot and at least one digit, or \<open>ValueError\<close>.  The value is the decimal value, except
  that a literal too large for a double gives infinity and one too small gives zero.
\<close>

definition digit_value :: "char \<Rightarrow> nat" where
  "digit_value c = of_char c - 48"

definition decimal_value :: "string \<Rightarrow> real" where
  "decimal_value s =
     (let int_part = takeWhile is_digit s;
          frac_part = filter is_digit (dropWhile is_digit s)
      in real (foldl (\<lambda>n c. 10 * n + digit_value c) 0 (int_part @ frac_part))
           / 10 ^ length frac_part)"

definition round_to_float :: "real \<Rightarrow> pyfloat" where
  "round_to_float q =
     (if 2 ^ 1024 - 2 ^ 970 \<le> q then PInf
      else if q \<le> 1 / 2 ^ 1075 then Fin 0
      else Fin q)"

definition py_float :: "string \<Rightarrow> error + pyfloat" where
  "py_float s =
     (if list_all (\<lambda>c. is_digit c \<or> c = CHR ''.'') s \<and> list_ex is_digit s
         \<and> length (filter (\<lambda>c. c = CHR ''.'') s) \<le> 1
      then Inr (round_to_float (decimal_value s))
      else Inl ValueError)"

text \<open>
  \<open>datetime.strptime(s, '%Y-%m-%d')\<close>.  The format is the regular expression
  \<open>(\d\d\d\d)-(1[0-2]|0[1-9]|[1-9])-(3[01]|[12]\d|0[1-9]|[1-9]| [1-9])\<close>, matched at the
  start of \<open>s\<close>; text left over, a year 0 and a day that the month does not have are
  \<open>ValueError\<close>s as well.
\<close>

definition strptime_year :: "nat pattern" where
  "strptime_year s =
     (if 4 \<le> length s \<and> list_all is_digit (take 4 s)
      then Some (foldl (\<lambda>n c. 10 * n + digit_value c) 0 (take 4 s), drop 4 s)
      else None)"

fun strptime_month :: "nat pattern" where
  "strptime_month (a # b # s) =
     (if a = CHR ''1'' \<and> b \<in> {CHR ''0'', CHR ''1'', CHR ''2''} then Some (10 + digit_value b, s)
      else if a = CHR ''0'' \<and> is_digit b \<and> b \<noteq> CHR ''0'' then Some (digit_value b, s)
      else if is_digit a \<and> a \<noteq> CHR ''0'' then Some (digit_value a, b # s)
      else None)"
| "strptime_month [a] = (if is_digit a \<and> a \<noteq> CHR ''0'' then Some (digit_value a, []) else None)"
| "strptime_month [] = None"

fun strptime_day :: "nat pattern" where
  "strptime_day (a # b # s) =
     (if a = CHR ''3'' \<and> b \<in> {CHR ''0'', CHR ''1''} then Some (30 + digit_value b, s)
      else if a \<in> {CHR ''1'', CHR ''2''} \<and> is_digit b then Some (10 * digit_value a + digit_value b, s)
      else if a = CHR ''0'' \<and> is_digit b \<and> b \<noteq> CHR ''0'' then Some (digit_value b, s)
      else if is_digit a \<and> a \<noteq> CHR ''0'' then Some (digit_value a, b # s)
      else if a = CHR '' '' \<and> is_digit b \<and> b \<noteq> CHR ''0'' then Some (digit_value b, s)
      else None)"
| "strptime_day [a] = (if is_digit a \<and> a \<noteq> CHR ''0'' then Some (digit_value a, []) else None)"
| "strptime_day [] = None"

definition is_leap :: "nat \<Rightarrow> bool" where
  "is_leap y = (y mod 4 = 0 \<and> (y mod 100 \<noteq> 0 \<or> y mod 400 = 0))"

definition days_in_month :: "nat \<Rightarrow> nat \<Rightarrow> nat" where
  "days_in_month y m =
     (if m = 2 then (if is_leap y then 29 else 28)
      else if m \<in> {4, 6, 9, 11} then 30 else 31)"

definition strptime_ymd :: "string \<Rightarrow> error + datetime" where
  "strptime_ymd s =
     (case Option.bind (strptime_year s) (\<lambda>(y, s1).
           Option.bind (lit ''-'' s1) (\<lambda>s2.
           Option.bind (strptime_month s2) (\<lambda>(m, s3).
           Option.bind (lit ''-'' s3) (\<lambda>s4.
           Option.bind (strptime_day s4) (\<lambda>(d, s5). Some ((y, m, d), s5)))))) of
        None \<Rightarrow> Inl ValueError
      | Some ((y, m, d), rest) \<Rightarrow>
          if rest \<noteq> [] then Inl ValueError
          else if y < 1 \<or> days_in_month y m < d then Inl ValueError
          else Inr \<lparr>year = y, month = m, day = d\<rparr>)"

subsection \<open>Blocks with balanced braces\<close>

text \<open>The loop of \<open>_extract_balanced_content\<close>.\<close>

function balanced_loop :: "string \<Rightarrow> nat \<Rightarrow> int \<Rightarrow> nat \<Rightarrow> string" where
  "balanced_loop text start_pos brace_count pos =
     (if pos < length text then
        (if text ! pos = CHR ''{'' then balanced_loop text start_pos (brace_count + 1) (pos + 1)
         else if text ! pos = CHR ''}'' then
           (if brace_count - 1 = 0
            then take (pos - (start_pos + 1)) (drop (start_pos + 1) text)
            else balanced_loop text start_pos (brace_count - 1) (pos + 1))
         else balanced_loop text start_pos brace_count (pos + 1))
      else [])"
  by pat_completeness auto
termination
  by (relation "measure (\<lambda>(text, start_pos, brace_count, pos). length text - pos)") auto

declare balanced_loop.simps [simp del]

definition extract_balanced_content :: "string \<Rightarrow> nat \<Rightarrow> string" where
  "extract_balanced_content text start_pos =
     (if length text \<le> start_pos \<or> text ! start_pos \<noteq> CHR ''{'' then []
      else balanced_loop text start_pos 0 start_pos)"

definition extract_balanced_block :: "string \<Rightarrow> string \<Rightarrow> string option" where
  "extract_balanced_block text block_name =
     (case re_search (re_block_open block_name) text of
        None \<Rightarrow> None
      | Some (g, match_end) \<Rightarrow> Some (extract_balanced_content text (match_end - 1)))"

subsection \<open>Property extractors\<close>

definition extract_string_property :: "string \<Rightarrow> string \<Rightarrow> string option" where
  "extract_string_property text property_name =
     map_option fst (re_search (re_string_property property_name) text)"

definition extract_keyword_property :: "string \<Rightarrow> string \<Rightarrow> string option" where
  "extract_keyword_property text property_name =
     map_option fst (re_search (re_keyword_property property_name) text)"

definition extract_number_property :: "string \<Rightarrow> string \<Rightarrow> error + pyfloat option" where
  "extract_number_property text property_name =
     (case re_search (re_number_property property_name) text of
        None \<Rightarrow> Inr None
      | Some (g, match_end) \<Rightarrow> (case py_float g of Inl e \<Rightarrow> Inl e | Inr v \<Rightarrow> Inr (Some v)))"

definition extract_boolean_property :: "string \<Rightarrow> string \<Rightarrow> bool option" where
  "extract_boolean_property text property_name =
     (case re_search (re_boolean_property property_name) text of
        None \<Rightarrow> None
      | Some (g, match_end) \<Rightarrow> Some (g = ''true''))"

definition extract_config_block :: "string \<Rightarrow> (string \<times> string) list" where
  "extract_config_block text =
     (case re_search re_config text of
        None \<Rightarrow> []
      | Some (config_text, match_end) \<Rightarrow>
          foldl (\<lambda>config (key, val). AList.update key val config) []
            (re_finditer re_key_value config_text))"

definition extract_string_list :: "string \<Rightarrow> string \<Rightarrow> string list" where
  "extract_string_list text property_name =
     (case re_search (re_string_list property_name) text of
        None \<Rightarrow> []
      | Some (list_text, match_end) \<Rightarrow> re_finditer quoted list_text)"

subsection \<open>The entries of a block\<close>

text \<open>
  The four extractors run the same loop over the text of their block: search the opening of
  the next named entry from \<open>pos\<close>, take its balanced content, move \<open>pos\<close> past it.  The loop
  is written once, for the keyword of the entry; it yields \<open>start_pos\<close>, the name and
  \<open>props_text\<close> of each round.
\<close>

lemma re_named_open_Nil: "re_named_open kw [] = None"
  by (simp add: re_named_open_def lit_def spaces1_def split: Option.bind_split)

lemma re_search_Some_nonempty:
  "re_search (re_named_open kw) s = Some m \<Longrightarrow> s \<noteq> []"
  by (cases s) (auto simp: re_named_open_Nil)

function named_entries :: "string \<Rightarrow> string \<Rightarrow> nat \<Rightarrow> (nat \<times> string \<times> string) list" where
  "named_entries kw text pos =
     (case re_search (re_named_open kw) (drop pos text) of
        None \<Rightarrow> []
      | Some (name, match_end) \<Rightarrow>
          (let start_pos = pos + match_end - 1;
               props_text = extract_balanced_content text start_pos
           in (start_pos, name, props_text)
                # named_entries kw text (start_pos + length props_text + 2)))"
  by pat_completeness auto
termination
  by (relation "measure (\<lambda>(kw, text, pos). length text - pos)")
     (auto dest!: re_search_Some_nonempty)

declare named_entries.simps [simp del]

subsection \<open>The dictionaries built by the scanner\<close>

text \<open>
  Each dictionary literal of \<open>_simple_parse\<close> and of the extractors is a record with one
  field for each key; a value that may be \<open>None\<close> is an option.  The key \<open>url\<close> of a source
  is only set for the platform \<open>custom\<close>: the outer option of \<open>sd_url\<close> says whether the key
  is there.
\<close>

record beneficiary_data =
  bd_name :: string
  bd_email :: "string option"
  bd_github :: "string option"
  bd_website :: "string option"
  bd_description :: "string option"

record source_data =
  sd_platform :: string
  sd_username :: string
  sd_type :: "string option"
  sd_active :: "bool option"
  sd_config :: "(string \<times> string) list"
  sd_url :: "string option option"

record amount_data =
  ad_value :: pyfloat
  ad_currency :: string

record tier_data =
  td_name :: string
  td_amount :: amount_data
  td_description :: "string option"
  td_max_sponsors :: "pyfloat option"
  td_benefits :: "string list"

record goal_data =
  gd_name :: string
  gd_target_amount :: amount_data
  gd_current_amount :: amount_data
  gd_description :: "string option"
  gd_deadline :: "string option"

record config_data =
  cd_project_name :: string
  cd_description :: "string option"
  cd_currency :: "string option"
  cd_min_amount :: "pyfloat option"
  cd_max_amount :: "pyfloat option"
  cd_beneficiaries :: "beneficiary_data list"
  cd_sources :: "source_data list"
  cd_tiers :: "tier_data list"
  cd_goals :: "goal_data list"

text \<open>
  \<open>d.get(key, default)\<close>: the value stored under the key when the key is there (\<open>Some\<close>),
  whatever that value is, and the default only when the key is missing (\<open>None\<close>).
\<close>

definition dict_get :: "'v option \<Rightarrow> 'v \<Rightarrow> 'v" where
  "dict_get entry dflt = (case entry of None \<Rightarrow> dflt | Some v \<Rightarrow> v)"

text \<open>Running a loop body that may raise over a list: the first exception ends the loop.\<close>

fun for_each :: "('a \<Rightarrow> error + 'b) \<Rightarrow> 'a list \<Rightarrow> error + 'b list" where
  "for_each f [] = Inr []"
| "for_each f (x # xs) =
     (case f x of
        Inl e \<Rightarrow> Inl e
      | Inr y \<Rightarrow> (case for_each f xs of Inl e \<Rightarrow> Inl e | Inr ys \<Rightarrow> Inr (y # ys)))"

subsection \<open>The block extractors\<close>

definition beneficiary_entry :: "nat \<times> string \<times> string \<Rightarrow> beneficiary_data" where
  "beneficiary_entry entry =
     (case entry of (start_pos, name, props_text) \<Rightarrow>
        \<lparr>bd_name = name,
         bd_email = extract_string_property props_text ''email'',
         bd_github = extract_string_property props_text ''github'',
         bd_website = extract_string_property props_text ''website'',
         bd_description = extract_string_property props_text ''description''\<rparr>)"

definition extract_beneficiaries :: "string \<Rightarrow> beneficiary_data list" where
  "extract_beneficiaries text =
     (case extract_balanced_block text ''beneficiaries'' of
        None \<Rightarrow> []
      | Some beneficiaries_text \<Rightarrow>
          if beneficiaries_text = [] then []
          else map beneficiary_entry (named_entries ''beneficiary'' beneficiaries_text 0))"

definition all_platforms :: "string list" where
  "all_platforms =
     [''github_sponsors'', ''patreon'', ''ko_fi'', ''open_collective'', ''buy_me_a_coffee'',
      ''liberapay'', ''paypal'', ''tidelift'', ''issuehunt'', ''community_bridge'', ''polar'',
      ''thanks_dev'', ''custom'']"

definition source_entry :: "string \<Rightarrow> nat \<times> string \<times> string \<Rightarrow> source_data" where
  "source_entry platform' entry =
     (case entry of (start_pos, username', props_text) \<Rightarrow>
        \<lparr>sd_platform = platform',
         sd_username = username',
         sd_type = extract_keyword_property props_text ''type'',
         sd_active = extract_boolean_property props_text ''active'',
         sd_config = extract_config_block props_text,
         sd_url = (if platform' = ''custom''
                   then Some (extract_string_property props_text ''url'') else None)\<rparr>)"

definition extract_sources :: "string \<Rightarrow> source_data list" where
  "extract_sources text =
     (case extract_balanced_block text ''sources'' of
        None \<Rightarrow> []
      | Some sources_text \<Rightarrow>
          if sources_text = [] then []
          else foldl (\<lambda>sources platform'.
                  sources @ map (source_entry platform') (named_entries platform' sources_text 0))
                [] all_platforms)"

text \<open>\<open>KW number CURRENCY\<close> inside an entry, with the defaults \<open>0.0\<close> and \<open>USD\<close>.\<close>

definition extract_amount :: "string \<Rightarrow> string \<Rightarrow> error + amount_data" where
  "extract_amount props_text kw =
     (case re_search (re_amount kw) props_text of
        None \<Rightarrow> Inr \<lparr>ad_value = Fin 0, ad_currency = ''USD''\<rparr>
      | Some ((num, cur), match_end) \<Rightarrow>
          (case py_float num of
             Inl e \<Rightarrow> Inl e
           | Inr v \<Rightarrow> Inr \<lparr>ad_value = v, ad_currency = cur\<rparr>))"

definition tier_entry :: "nat \<times> string \<times> string \<Rightarrow> error + tier_data" where
  "tier_entry entry =
     (case entry of (start_pos, name, props_text) \<Rightarrow>
        (case extract_amount props_text ''amount'' of
           Inl e \<Rightarrow> Inl e
         | Inr amount \<Rightarrow>
             (case extract_number_property props_text ''max_sponsors'' of
                Inl e \<Rightarrow> Inl e
              | Inr max_sponsors' \<Rightarrow>
                  Inr \<lparr>td_name = name,
                       td_amount = amount,
                       td_description = extract_string_property props_text ''description'',
                       td_max_sponsors = max_sponsors',
                       td_benefits = extract_string_list props_text ''benefits''\<rparr>)))"

definition extract_tiers :: "string \<Rightarrow> error + tier_data list" where
  "extract_tiers text =
     (case extract_balanced_block text ''tiers'' of
        None \<Rightarrow> Inr []
      | Some tiers_text \<Rightarrow>
          if tiers_text = [] then Inr []
          else for_each tier_entry (named_entries ''tier'' tiers_text 0))"

definition goal_entry :: "nat \<times> string \<times> string \<Rightarrow> error + goal_data" where
  "goal_entry entry =
     (case entry of (start_pos, name, props_text) \<Rightarrow>
        (case extract_amount props_text ''target'' of
           Inl e \<Rightarrow> Inl e
         | Inr target \<Rightarrow>
             (case extract_amount props_text ''current'' of
                Inl e \<Rightarrow> Inl e
              | Inr current \<Rightarrow>
                  Inr \<lparr>gd_name = name,
                       gd_target_amount = target,
                       gd_current_amount = current,
                       gd_description = extract_string_property props_text ''description'',
                       gd_deadline = extract_string_property props_text ''deadline''\<rparr>)))"

definition extract_goals :: "string \<Rightarrow> error + goal_data list" where
  "extract_goals text =
     (case extract_balanced_block text ''goals'' of
        None \<Rightarrow> Inr []
      | Some goals_text \<Rightarrow>
          if goals_text = [] then Inr []
          else for_each goal_entry (named_entries ''goal'' goals_text 0))"

subsection \<open>\<open>_simple_parse\<close>\<close>

definition simple_parse :: "string \<Rightarrow> error + config_data" where
  "simple_parse text0 =
     (let text = remove_comments text0 in
      case re_search (re_named_open ''funding'') text of
        None \<Rightarrow> Inl (ParseError None)
      | Some (project_name', match_end) \<Rightarrow>
          (case extract_number_property text ''min_amount'' of
             Inl e \<Rightarrow> Inl e
           | Inr min_amount' \<Rightarrow>
          (case extract_number_property text ''max_amount'' of
             Inl e \<Rightarrow> Inl e
           | Inr max_amount' \<Rightarrow>
          (case extract_tiers text of
             Inl e \<Rightarrow> Inl e
           | Inr tiers' \<Rightarrow>
          (case extract_goals text of
             Inl e \<Rightarrow> Inl e
           | Inr goals' \<Rightarrow>
               Inr \<lparr>cd_project_name = project_name',
                    cd_description = extract_string_property text ''description'',
                    cd_currency = extract_keyword_property text ''currency'',
                    cd_min_amount = min_amount',
                    cd_max_amount = max_amount',
                    cd_beneficiaries = extract_beneficiaries text,
                    cd_sources = extract_sources text,
                    cd_tiers = tiers',
                    cd_goals = goals'\<rparr>)))))"

subsection \<open>\<open>_build_configuration\<close>\<close>

text \<open>The lookup tables of the parser, and \<open>table.get(key, default)\<close> for a key that may be \<open>None\<close>.\<close>

definition platform_mapping :: "(string \<times> FundingPlatform) list" where
  "platform_mapping =
     [(''github_sponsors'', GITHUB_SPONSORS), (''patreon'', PATREON), (''ko_fi'', KO_FI),
      (''open_collective'', OPEN_COLLECTIVE), (''buy_me_a_coffee'', BUY_ME_A_COFFEE),
      (''liberapay'', LIBERAPAY), (''paypal'', PAYPAL), (''tidelift'', TIDELIFT),
      (''issuehunt'', ISSUEHUNT), (''community_bridge'', COMMUNITY_BRIDGE), (''polar'', POLAR),
      (''thanks_dev'', THANKS_DEV), (''custom'', CUSTOM)]"

definition funding_type_mapping :: "(string \<times> FundingType) list" where
  "funding_type_mapping = [(''one_time'', ONE_TIME), (''recurring'', RECURRING), (''both'', BOTH)]"

definition currency_mapping :: "(string \<times> CurrencyType) list" where
  "currency_mapping = [(''USD'', USD), (''EUR'', EUR), (''GBP'', GBP), (''CAD'', CAD), (''AUD'', AUD)]"

definition mapping_get :: "(string \<times> 'v) list \<Rightarrow> string option \<Rightarrow> 'v \<Rightarrow> 'v" where
  "mapping_get table key dflt =
     (case key of None \<Rightarrow> dflt
      | Some k \<Rightarrow> (case map_of table k of None \<Rightarrow> dflt | Some v \<Rightarrow> v))"

definition build_amount :: "amount_data \<Rightarrow> FundingAmount" where
  "build_amount amount_data =
     \<lparr>amount_value = ad_value amount_data,
      currency = mapping_get currency_mapping (Some (ad_currency amount_data)) USD\<rparr>"

definition build_beneficiary :: "beneficiary_data \<Rightarrow> Beneficiary" where
  "build_beneficiary ben_data =
     \<lparr>ben_name = bd_name ben_data,
      ben_email = dict_get (Some (bd_email ben_data)) None,
      github_username = dict_get (Some (bd_github ben_data)) None,
      website = dict_get (Some (bd_website ben_data)) None,
      ben_description = dict_get (Some (bd_description ben_data)) None\<rparr>"

definition build_source :: "source_data \<Rightarrow> FundingSource" where
  "build_source source_data =
     (let platform' = mapping_get platform_mapping (Some (sd_platform source_data)) CUSTOM;
          funding_type' = mapping_get funding_type_mapping
                            (dict_get (Some (sd_type source_data)) (Some ''both'')) BOTH
      in \<lparr>platform = platform',
          username = sd_username source_data,
          funding_type = funding_type',
          is_active = dict_get (Some (sd_active source_data)) (Some True),
          custom_url = dict_get (sd_url source_data) None,
          platform_specific_config = dict_get (Some (sd_config source_data)) []\<rparr>)"

definition build_tier :: "tier_data \<Rightarrow> error + FundingTier" where
  "build_tier tier_data =
     (let amount = build_amount (td_amount tier_data) in
      case (case dict_get (Some (td_max_sponsors tier_data)) None of
              None \<Rightarrow> Inr None
            | Some v \<Rightarrow> if float_truthy v then map_sum id Some (py_int v) else Inr None) of
        Inl e \<Rightarrow> Inl e
      | Inr max_sponsors' \<Rightarrow>
          Inr \<lparr>tier_name = td_name tier_data,
               tier_amount = amount,
               tier_description = dict_get (Some (td_description tier_data)) None,
               benefits = dict_get (Some (td_benefits tier_data)) [],
               max_sponsors = max_sponsors',
               tier_is_active = True\<rparr>)"

definition build_goal :: "goal_data \<Rightarrow> FundingGoal" where
  "build_goal goal_data =
     (let target_amount' = build_amount (gd_target_amount goal_data);
          current_amount' = build_amount (gd_current_amount goal_data);
          deadline' = (case dict_get (Some (gd_deadline goal_data)) None of
                         None \<Rightarrow> None
                       | Some s \<Rightarrow>
                           if s = [] then None
                           else (case strptime_ymd s of Inl e \<Rightarrow> None | Inr d \<Rightarrow> Some d))
      in \<lparr>goal_name = gd_name goal_data,
          target_amount = target_amount',
          goal_description = dict_get (Some (gd_description goal_data)) None,
          deadline = deadline',
          current_amount = current_amount',
          is_reached = False\<rparr>)"

definition amount_limit :: "pyfloat option \<Rightarrow> CurrencyType \<Rightarrow> FundingAmount option" where
  "amount_limit v cur =
     (case v of
        None \<Rightarrow> None
      | Some x \<Rightarrow> if float_truthy x then Some \<lparr>amount_value = x, currency = cur\<rparr> else None)"

definition build_configuration :: "config_data \<Rightarrow> error + FundingConfiguration" where
  "build_configuration config_data =
     (let config = \<lparr>project_name = cd_project_name config_data,
                    description = dict_get (Some (cd_description config_data)) None,
                    beneficiaries = [], funding_sources = [], tiers = [], goals = [],
                    preferred_currency =
                      mapping_get currency_mapping
                        (dict_get (Some (cd_currency config_data)) (Some ''USD'')) USD,
                    min_amount = None, max_amount = None\<rparr>;
          config = config\<lparr>min_amount :=
                     (case amount_limit (dict_get (Some (cd_min_amount config_data)) None)
                             (preferred_currency config) of
                        None \<Rightarrow> min_amount config | Some a \<Rightarrow> Some a)\<rparr>;
          config = config\<lparr>max_amount :=
                     (case amount_limit (dict_get (Some (cd_max_amount config_data)) None)
                             (preferred_currency config) of
                        None \<Rightarrow> max_amount config | Some a \<Rightarrow> Some a)\<rparr>;
          config = foldl (\<lambda>config ben_data. add_beneficiary config (build_beneficiary ben_data))
                     config (dict_get (Some (cd_beneficiaries config_data)) []);
          config = foldl (\<lambda>config source_data. add_funding_source config (build_source source_data))
                     config (dict_get (Some (cd_sources config_data)) [])
      in case for_each build_tier (dict_get (Some (cd_tiers config_data)) []) of
           Inl e \<Rightarrow> Inl e
         | Inr built_tiers \<Rightarrow>
             (let config = foldl add_tier config built_tiers;
                  config = foldl (\<lambda>config goal_data. add_goal config (build_goal goal_data))
                             config (dict_get (Some (cd_goals config_data)) [])
              in Inr config))"

subsection \<open>\<open>parse_text\<close> and \<open>parse_file\<close>\<close>

text \<open>Every exception raised while scanning or building is caught and raised as a \<open>ParseError\<close>.\<close>

definition parse_text :: "string \<Rightarrow> error + FundingConfiguration" where
  "parse_text text =
     (case simple_parse text of
        Inl e \<Rightarrow> Inl (ParseError (Some e))
      | Inr config_data \<Rightarrow>
          (case build_configuration config_data of
             Inl e \<Rightarrow> Inl (ParseError (Some e))
           | Inr config \<Rightarrow> Inr config))"

text \<open>
  Reading the file is a parameter: \<open>read_file path\<close> is the content of the file, or the
  exception of \<open>open\<close> or \<open>read\<close>.  Whatever is raised, by the reading or by
  \<open>parse_text\<close>, is raised again as a \<open>ParseError\<close>.
\<close>

definition parse_file :: "(string \<Rightarrow> error + string) \<Rightarrow> string \<Rightarrow> error + FundingConfiguration" where
  "parse_file read_file file_path =
     (case read_file file_path of
        Inl e \<Rightarrow> Inl (ParseError (Some e))
      | Inr content \<Rightarrow>
          (case parse_text content of
             Inl e \<Rightarrow> Inl (ParseError (Some e))
           | Inr config \<Rightarrow> Inr config))"

section \<open>Notions used to state the properties\<close>

text \<open>The two messages of the Tidelift rule.\<close>

definition is_tidelift_violation :: "string \<Rightarrow> bool" where
  "is_tidelift_violation e = (e = tidelift_format_error \<or> e = tidelift_platform_error)"

text \<open>
  A username of the form \<open>registry/package\<close> whose registry is one of the six the
  validator accepts.
\<close>

definition tidelift_form :: "string \<Rightarrow> bool" where
  "tidelift_form u = (\<exists>registry package. u = registry @ ''/'' @ package \<and> registry \<in> set valid_platforms)"

text \<open>What the Tidelift rule asks for one funding source, in the words of the specification.\<close>

definition spec_tidelift_violations :: "FundingSource \<Rightarrow> string list" where
  "spec_tidelift_violations source =
     (if platform source = TIDELIFT \<and> \<not> tidelift_form (username source)
      then [if CHR ''/'' \<in> set (username source) then tidelift_platform_error else tidelift_format_error]
      else [])"


text \<open>Example configurations and goals.\<close>

definition tidelift_config :: "string \<Rightarrow> FundingConfiguration" where
  "tidelift_config u =
     \<lparr>project_name = ''P'', description = None,
      beneficiaries = [\<lparr>ben_name = ''A'', ben_email = None, github_username = None, website = None, ben_description = None\<rparr>],
      funding_sources = [\<lparr>platform = TIDELIFT, username = u, funding_type = BOTH,
         is_active = Some True, custom_url = None, platform_specific_config = []\<rparr>],
      tiers = [], goals = [], preferred_currency = USD, min_amount = None, max_amount = None\<rparr>"


definition names_config :: "string list \<Rightarrow> string list \<Rightarrow> FundingConfiguration" where
  "names_config tns gns =
     \<lparr>project_name = ''P'', description = None,
      beneficiaries = [\<lparr>ben_name = ''A'', ben_email = None, github_username = None,
                        website = None, ben_description = None\<rparr>],
      funding_sources = [\<lparr>platform = GITHUB_SPONSORS, username = ''a'', funding_type = BOTH,
         is_active = Some True, custom_url = None, platform_specific_config = []\<rparr>],
      tiers = map (\<lambda>n. \<lparr>tier_name = n, tier_amount = \<lparr>amount_value = Fin 5, currency = USD\<rparr>,
                           tier_description = None, benefits = [], max_sponsors = None,
                           tier_is_active = True\<rparr>) tns,
      goals = map (\<lambda>n. \<lparr>goal_name = n, target_amount = \<lparr>amount_value = Fin 100, currency = USD\<rparr>,
                           goal_description = None, deadline = None,
                           current_amount = \<lparr>amount_value = Fin 0, currency = USD\<rparr>,
                           is_reached = False\<rparr>) gns,
      preferred_currency = USD, min_amount = None, max_amount = None\<rparr>"

definition example_goal :: "real \<Rightarrow> real \<Rightarrow> FundingGoal" where
  "example_goal t c =
     \<lparr>goal_name = ''G'', target_amount = \<lparr>amount_value = Fin t, currency = USD\<rparr>,
      goal_description = None, deadline = None,
      current_amount = \<lparr>amount_value = Fin c, currency = USD\<rparr>, is_reached = False\<rparr>"

text \<open>
  Balanced text: every closing brace closes a brace opened before it, and none stays open.
  \<open>nested_ok s k\<close> says so for \<open>s\<close> read with \<open>k\<close> braces open.
\<close>

fun nested_ok :: "string \<Rightarrow> nat \<Rightarrow> bool" where
  "nested_ok [] k = (k = 0)"
| "nested_ok (c # cs) k =
     (if c = CHR ''{'' then nested_ok cs (Suc k)
      else if c = CHR ''}'' then 0 < k \<and> nested_ok cs (k - 1)
      else nested_ok cs k)"

definition balanced :: "string \<Rightarrow> bool" where
  "balanced s = nested_ok s 0"

text \<open>
  The text after an opening brace never closes it: read with \<open>k\<close> further braces open, no
  closing brace comes while \<open>k\<close> is zero.
\<close>

fun never_closed :: "string \<Rightarrow> nat \<Rightarrow> bool" where
  "never_closed [] k = True"
| "never_closed (c # cs) k =
     (if c = CHR ''{'' then never_closed cs (Suc k)
      else if c = CHR ''}'' then 0 < k \<and> never_closed cs (k - 1)
      else never_closed cs k)"

text \<open>
  Where the loop of \<open>_extract_balanced_content\<close> returns: the offset of the first closing
  brace at which the count, started at \<open>k\<close>, is back to zero.
\<close>

fun closing_index :: "string \<Rightarrow> int \<Rightarrow> nat option" where
  "closing_index [] k = None"
| "closing_index (c # cs) k =
     (if c = CHR ''{'' then map_option Suc (closing_index cs (k + 1))
      else if c = CHR ''}'' then
        (if k - 1 = 0 then Some 0 else map_option Suc (closing_index cs (k - 1)))
      else map_option Suc (closing_index cs k))"

text \<open>A pattern that consumes at least one character and returns what follows its match.\<close>

definition consuming :: "'g pattern \<Rightarrow> bool" where
  "consuming r = (\<forall>s g rest. r s = Some (g, rest) \<longrightarrow> (\<exists>n. 0 < n \<and> n \<le> length s \<and> rest = drop n s))"

text \<open>What one round of the loop finds at \<open>start_pos\<close>.\<close>

definition entry_at :: "string \<Rightarrow> string \<Rightarrow> nat \<Rightarrow> nat \<times> string \<times> string \<Rightarrow> bool" where
  "entry_at kw t pos entry =
     (case entry of (start_pos, name, props_text) \<Rightarrow>
        pos \<le> start_pos \<and> start_pos < length t \<and> t ! start_pos = CHR ''{''
        \<and> props_text = extract_balanced_content t start_pos
        \<and> (\<exists>i. pos \<le> i \<and> i \<le> start_pos
                \<and> re_named_open kw (drop i t) = Some (name, drop (Suc start_pos) t)))"

text \<open>The configuration built from the dictionary, once the tiers are built.\<close>

definition built_configuration :: "config_data \<Rightarrow> FundingTier list \<Rightarrow> FundingConfiguration" where
  "built_configuration cd ts =
     (let cur = mapping_get currency_mapping (cd_currency cd) USD
      in \<lparr>project_name = cd_project_name cd,
          description = cd_description cd,
          beneficiaries = map build_beneficiary (cd_beneficiaries cd),
          funding_sources = map build_source (cd_sources cd),
          tiers = ts,
          goals = map build_goal (cd_goals cd),
          preferred_currency = cur,
          min_amount = amount_limit (cd_min_amount cd) cur,
          max_amount = amount_limit (cd_max_amount cd) cur\<rparr>)"

section \<open>Properties of the validator and of the metamodel\<close>

lemma foldl_validate_source:
  "foldl (\<lambda>errors source. errors @ validate_source source) acc srcs
     = acc @ concat (map validate_source srcs)"
  by (induction srcs arbitrary: acc) simp_all

lemma length_neq_card_set: "(length xs \<noteq> card (set xs)) = (\<not> distinct xs)"
  by (metis card_distinct distinct_card)

lemma validate_configuration_unfold:
  "validate_configuration config =
     (if project_name config = [] then [''Project name is required''] else [])
     @ (if beneficiaries config = [] then [''At least one beneficiary is required''] else [])
     @ (if funding_sources config = [] then [''At least one funding source is required''] else [])
     @ concat (map validate_source (funding_sources config))
     @ (if \<not> distinct (map tier_name (tiers config)) then [tier_names_error] else [])
     @ (if \<not> distinct (map goal_name (goals config)) then [goal_names_error] else [])"
  by (simp only: validate_configuration_def Let_def foldl_validate_source length_neq_card_set
        append_Nil append_assoc)

lemma tidelift_platform_error_eq: "tidelift_platform_error = ''Tidelift platform name must be one of: npm, pypi, rubygems, maven, packagist, nuget''"
  by (simp add: tidelift_platform_error_def valid_platforms_def)

lemma valid_platforms_no_slash: "r \<in> set valid_platforms \<Longrightarrow> CHR ''/'' \<notin> set r"
  by (auto simp: valid_platforms_def)

lemma takeWhile_neq_append:
  "c \<notin> set r \<Longrightarrow> takeWhile (\<lambda>x. x \<noteq> c) (r @ c # p) = r"
  by (induction r) auto

lemma tidelift_form_code:
  "tidelift_form u = (CHR ''/'' \<in> set u \<and> split_first (CHR ''/'') u \<in> set valid_platforms)"
proof
  assume "tidelift_form u"
  then obtain r p where u: "u = r @ ''/'' @ p" and r: "r \<in> set valid_platforms"
    unfolding tidelift_form_def by blast
  from r have "CHR ''/'' \<notin> set r" by (rule valid_platforms_no_slash)
  then have "takeWhile (\<lambda>x. x \<noteq> CHR ''/'') u = r"
    unfolding u by (simp add: takeWhile_neq_append)
  with u r show "CHR ''/'' \<in> set u \<and> split_first (CHR ''/'') u \<in> set valid_platforms"
    by (simp add: split_first_def)
next
  assume a: "CHR ''/'' \<in> set u \<and> split_first (CHR ''/'') u \<in> set valid_platforms"
  then have ne: "dropWhile (\<lambda>x. x \<noteq> CHR ''/'') u \<noteq> []" by (simp add: dropWhile_eq_Nil_conv)
  have "hd (dropWhile (\<lambda>x. x \<noteq> CHR ''/'') u) = CHR ''/''"
    using hd_dropWhile[OF ne] by simp
  with ne obtain p where "dropWhile (\<lambda>x. x \<noteq> CHR ''/'') u = CHR ''/'' # p"
    by (cases "dropWhile (\<lambda>x. x \<noteq> CHR ''/'') u") auto
  then have "u = takeWhile (\<lambda>x. x \<noteq> CHR ''/'') u @ ''/'' @ p"
    using takeWhile_dropWhile_id[of "\<lambda>x. x \<noteq> CHR ''/''" u] by simp
  with a show "tidelift_form u" unfolding tidelift_form_def split_first_def by blast
qed

lemma filter_concat_map: "filter P (concat (map f xs)) = concat (map (\<lambda>x. filter P (f x)) xs)"
  by (induction xs) simp_all


lemma tidelift_filter_source:
  "filter is_tidelift_violation (validate_source s) = spec_tidelift_violations s"
  by (cases "platform s")
     (auto simp: validate_source_def is_tidelift_violation_def tidelift_form_code Let_def
        spec_tidelift_violations_def
        tidelift_format_error_def tidelift_platform_error_eq thanks_dev_error_def)


text \<open>
  C6.  Among the violations returned by \<open>validate_configuration\<close>, those of the Tidelift rule
  are exactly one for each funding source on the \<open>tidelift\<close> platform whose username is not
  of the form \<open>registry/package\<close> with a registry among npm, pypi, rubygems, maven, packagist
  and nuget, in the order of the sources, and none for any other source.  The violation is the
  message listing the registries when the username has a slash, and the message giving the
  expected format when it has none.
\<close>

theorem tidelift_rule:
  "filter is_tidelift_violation (validate_configuration config)
     = concat (map spec_tidelift_violations (funding_sources config))"
  unfolding validate_configuration_unfold
  apply (simp add: filter_concat_map tidelift_filter_source)
  apply (simp add: is_tidelift_violation_def tidelift_format_error_def tidelift_platform_error_eq tier_names_error_def goal_names_error_def)
  done


text \<open>
  Username \<open>otherregistry/pkg\<close> gives the one violation that lists the registries;
  username \<open>npm/pkg\<close> gives none.
\<close>

theorem tidelift_rule_witness:
  "filter is_tidelift_violation (validate_configuration (tidelift_config ''otherregistry/pkg'')) = [tidelift_platform_error]
   \<and> filter is_tidelift_violation (validate_configuration (tidelift_config ''npm/pkg'')) = []
   \<and> validate_configuration (tidelift_config ''otherregistry/pkg'') = [tidelift_platform_error]
   \<and> validate_configuration (tidelift_config ''npm/pkg'') = []"
  using tidelift_rule [of "tidelift_config ''otherregistry/pkg''"] tidelift_rule [of "tidelift_config ''npm/pkg''"]
  by (simp add: tidelift_config_def spec_tidelift_violations_def tidelift_form_code split_first_def valid_platforms_def
       validate_configuration_unfold validate_source_def Let_def)

lemma tier_names_error_source: "tier_names_error \<notin> set (validate_source s)"
  by (cases "platform s")
     (auto simp: validate_source_def Let_def tier_names_error_def
        tidelift_format_error_def tidelift_platform_error_eq thanks_dev_error_def)

lemma goal_names_error_source: "goal_names_error \<notin> set (validate_source s)"
  by (cases "platform s")
     (auto simp: validate_source_def Let_def goal_names_error_def
        tidelift_format_error_def tidelift_platform_error_eq thanks_dev_error_def)

lemma filter_eq_notin: "e \<notin> set xs \<Longrightarrow> filter (\<lambda>x. x = e) xs = []"
  by (induction xs) auto

lemma filter_eq_concat_notin:
  "(\<And>x. e \<notin> set (f x)) \<Longrightarrow> filter (\<lambda>x. x = e) (concat (map f xs)) = []"
  by (rule filter_eq_notin) auto

lemma tier_goal_error_neq: "tier_names_error \<noteq> goal_names_error"
  by (simp add: tier_names_error_def goal_names_error_def)

lemma fixed_errors_neq:
  "tier_names_error \<noteq> ''Project name is required''"
  "tier_names_error \<noteq> ''At least one beneficiary is required''"
  "tier_names_error \<noteq> ''At least one funding source is required''"
  "goal_names_error \<noteq> ''Project name is required''"
  "goal_names_error \<noteq> ''At least one beneficiary is required''"
  "goal_names_error \<noteq> ''At least one funding source is required''"
  by (simp_all add: tier_names_error_def goal_names_error_def)

text \<open>
  C7.  \<open>validate_configuration\<close> returns the tier-name violation exactly once when some tier
  name occurs twice and not at all when the tier names are distinct; the same holds for goal
  names, independently of the tiers.  The returned list collects the violations of every rule:
  no rule stops the others from being checked.
\<close>

theorem unique_names_rule:
  "filter (\<lambda>e. e = tier_names_error) (validate_configuration config)
     = (if distinct (map tier_name (tiers config)) then [] else [tier_names_error])
   \<and> filter (\<lambda>e. e = goal_names_error) (validate_configuration config)
     = (if distinct (map goal_name (goals config)) then [] else [goal_names_error])
   \<and> set (validate_configuration config)
     = (if project_name config = [] then {''Project name is required''} else {})
       \<union> (if beneficiaries config = [] then {''At least one beneficiary is required''} else {})
       \<union> (if funding_sources config = [] then {''At least one funding source is required''} else {})
       \<union> (\<Union>source \<in> set (funding_sources config). set (validate_source source))
       \<union> (if distinct (map tier_name (tiers config)) then {} else {tier_names_error})
       \<union> (if distinct (map goal_name (goals config)) then {} else {goal_names_error})"
proof (intro conjI)
  have t: "filter (\<lambda>x. x = tier_names_error) (concat (map validate_source (funding_sources config))) = []"
    by (rule filter_eq_concat_notin) (rule tier_names_error_source)
  have g: "filter (\<lambda>x. x = goal_names_error) (concat (map validate_source (funding_sources config))) = []"
    by (rule filter_eq_concat_notin) (rule goal_names_error_source)
  show "filter (\<lambda>e. e = tier_names_error) (validate_configuration config)
     = (if distinct (map tier_name (tiers config)) then [] else [tier_names_error])"
    unfolding validate_configuration_unfold filter_append t
    using tier_goal_error_neq fixed_errors_neq by simp
  show "filter (\<lambda>e. e = goal_names_error) (validate_configuration config)
     = (if distinct (map goal_name (goals config)) then [] else [goal_names_error])"
    unfolding validate_configuration_unfold filter_append g
    using tier_goal_error_neq fixed_errors_neq by simp
  show "set (validate_configuration config)
     = (if project_name config = [] then {''Project name is required''} else {})
       \<union> (if beneficiaries config = [] then {''At least one beneficiary is required''} else {})
       \<union> (if funding_sources config = [] then {''At least one funding source is required''} else {})
       \<union> (\<Union>source \<in> set (funding_sources config). set (validate_source source))
       \<union> (if distinct (map tier_name (tiers config)) then {} else {tier_names_error})
       \<union> (if distinct (map goal_name (goals config)) then {} else {goal_names_error})"
    unfolding validate_configuration_unfold set_append set_concat set_map
    by (simp only: if_distrib[of set] list.set image_image Un_assoc if_not_P if_P not_not
          if_bool_eq_conj) auto
qed

text \<open>
  Two tiers named \<open>Basic\<close> give the tier violation alone, two goals named \<open>G\<close> the goal
  violation alone, both together give both, and distinct names give none.
\<close>

theorem unique_names_rule_witness:
  "validate_configuration (names_config [''Basic'', ''Basic''] [''G1'', ''G2'']) = [tier_names_error]
   \<and> validate_configuration (names_config [''Basic'', ''Gold''] [''G'', ''G'']) = [goal_names_error]
   \<and> validate_configuration (names_config [''Basic'', ''Basic''] [''G'', ''G''])
       = [tier_names_error, goal_names_error]
   \<and> validate_configuration (names_config [''Basic'', ''Gold''] [''G1'', ''G2'']) = []
   \<and> filter (\<lambda>e. e = tier_names_error)
         (validate_configuration (names_config [''Basic'', ''Basic''] [''G1'', ''G2''])) = [tier_names_error]
   \<and> filter (\<lambda>e. e = tier_names_error)
         (validate_configuration (names_config [''Basic'', ''Gold''] [''G1'', ''G2''])) = []"
  using unique_names_rule [of "names_config [''Basic'', ''Basic''] [''G1'', ''G2'']"]
        unique_names_rule [of "names_config [''Basic'', ''Gold''] [''G1'', ''G2'']"]
  by (simp add: names_config_def validate_configuration_unfold validate_source_def)

lemma float_truediv_ok: "b \<noteq> Fin 0 \<Longrightarrow> \<exists>q. float_truediv a b = Inr q"
  by (cases b; cases a) auto

text \<open>
  C8.  \<open>progress_percentage\<close> never raises; it is 0 when the target value is zero, and
  otherwise the smaller of \<open>current / target * 100\<close> and 100 (the division is defined since
  the target is not zero).
\<close>

theorem progress_percentage_formula:
  "(\<exists>v. progress_percentage goal = Inr v)
   \<and> (amount_value (target_amount goal) = Fin 0 \<longrightarrow> progress_percentage goal = Inr (Fin 0))
   \<and> (amount_value (target_amount goal) \<noteq> Fin 0 \<longrightarrow>
        (\<exists>q. float_truediv (amount_value (current_amount goal)) (amount_value (target_amount goal)) = Inr q
           \<and> progress_percentage goal = Inr (py_min (float_mul q (Fin 100)) (Fin 100))))
   \<and> (\<forall>c t. amount_value (current_amount goal) = Fin c \<and> amount_value (target_amount goal) = Fin t
          \<and> t \<noteq> 0 \<longrightarrow> progress_percentage goal = Inr (Fin (min (c / t * 100) 100)))"
proof (intro conjI allI impI)
  show "\<exists>v. progress_percentage goal = Inr v"
  proof (cases "amount_value (target_amount goal) = Fin 0")
    case True
    then show ?thesis by (simp add: progress_percentage_def)
  next
    case False
    from float_truediv_ok[OF False] obtain q where
      "float_truediv (amount_value (current_amount goal)) (amount_value (target_amount goal)) = Inr q"
      by blast
    with False show ?thesis by (simp add: progress_percentage_def)
  qed
next
  assume "amount_value (target_amount goal) = Fin 0"
  then show "progress_percentage goal = Inr (Fin 0)" by (simp add: progress_percentage_def)
next
  assume ne: "amount_value (target_amount goal) \<noteq> Fin 0"
  from float_truediv_ok[OF ne] obtain q where
    q: "float_truediv (amount_value (current_amount goal)) (amount_value (target_amount goal)) = Inr q"
    by blast
  with ne show "\<exists>q. float_truediv (amount_value (current_amount goal)) (amount_value (target_amount goal)) = Inr q
           \<and> progress_percentage goal = Inr (py_min (float_mul q (Fin 100)) (Fin 100))"
    by (simp add: progress_percentage_def)
next
  fix c t
  assume "amount_value (current_amount goal) = Fin c \<and> amount_value (target_amount goal) = Fin t \<and> t \<noteq> 0"
  then show "progress_percentage goal = Inr (Fin (min (c / t * 100) 100))"
    by (auto simp: progress_percentage_def py_min_def min_def)
qed

text \<open>
  Target 200 with current 125 gives 62.5, target 0 gives 0, and current above target gives 100.
\<close>

theorem progress_percentage_formula_witness:
  "progress_percentage (example_goal 200 125) = Inr (Fin 62.5)
   \<and> progress_percentage (example_goal 0 125) = Inr (Fin 0)
   \<and> progress_percentage (example_goal 100 250) = Inr (Fin 100)"
  using progress_percentage_formula [of "example_goal 200 125"]
        progress_percentage_formula [of "example_goal 0 125"]
        progress_percentage_formula [of "example_goal 100 250"]
  by (simp add: example_goal_def progress_percentage_def py_min_def)

section \<open>Properties of the scanner and of the builder\<close>

lemma balanced_loop_closing_index:
  "start_pos \<le> pos \<Longrightarrow>
   balanced_loop t start_pos k pos =
     (case closing_index (drop pos t) k of
        None \<Rightarrow> []
      | Some i \<Rightarrow> take (pos + i - (start_pos + 1)) (drop (start_pos + 1) t))"
proof (induction t start_pos k pos rule: balanced_loop.induct)
  case (1 t start_pos k pos)
  show ?case
  proof (cases "pos < length t")
    case False
    then show ?thesis by (simp add: balanced_loop.simps [of t start_pos k pos])
  next
    case True
    then have d: "drop pos t = t ! pos # drop (Suc pos) t"
      by (simp add: Cons_nth_drop_Suc)
    from "1.prems" have le: "start_pos \<le> pos + 1" by simp
    show ?thesis
    proof (cases "t ! pos = CHR ''{''")
      case open_brace: True
      from "1.IH"(1) [OF True open_brace le] True open_brace show ?thesis
        by (simp add: balanced_loop.simps [of t start_pos k pos] d split: option.split)
    next
      case not_open: False
      show ?thesis
      proof (cases "t ! pos = CHR ''}''")
        case close_brace: True
        show ?thesis
        proof (cases "k - 1 = 0")
          case True
          with \<open>pos < length t\<close> not_open close_brace show ?thesis
            by (subst balanced_loop.simps) (simp add: d)
        next
          case False
          from "1.IH"(2) [OF \<open>pos < length t\<close> not_open close_brace False le]
            \<open>pos < length t\<close> not_open close_brace False show ?thesis
            by (simp add: balanced_loop.simps [of t start_pos k pos] d split: option.split)
        qed
      next
        case False
        from "1.IH"(3) [OF \<open>pos < length t\<close> not_open False le]
            \<open>pos < length t\<close> not_open False show ?thesis
          by (simp add: balanced_loop.simps [of t start_pos k pos] d split: option.split)
      qed
    qed
  qed
qed

lemma closing_index_nested_ok:
  "nested_ok body k \<Longrightarrow> closing_index (body @ CHR ''}'' # rest) (int k + 1) = Some (length body)"
proof (induction body arbitrary: k)
  case Nil
  then show ?case by simp
next
  case (Cons c cs)
  show ?case
  proof (cases "c = CHR ''{''")
    case True
    with Cons.prems have "nested_ok cs (Suc k)" by simp
    from Cons.IH [OF this] True show ?thesis by (simp add: add.commute)
  next
    case not_open: False
    show ?thesis
    proof (cases "c = CHR ''}''")
      case True
      with Cons.prems have k: "0 < k" and "nested_ok cs (k - 1)" by simp_all
      from Cons.IH [OF this(2)] k have "closing_index (cs @ CHR ''}'' # rest) (int k) = Some (length cs)"
        by (simp add: of_nat_diff)
      with True k show ?thesis by simp
    next
      case False
      with not_open Cons.prems have "nested_ok cs k" by simp
      from Cons.IH [OF this] not_open False show ?thesis by simp
    qed
  qed
qed

lemma closing_index_never_closed:
  "never_closed body k \<Longrightarrow> closing_index body (int k + 1) = None"
proof (induction body arbitrary: k)
  case Nil
  then show ?case by simp
next
  case (Cons c cs)
  show ?case
  proof (cases "c = CHR ''{''")
    case True
    with Cons.prems have "never_closed cs (Suc k)" by simp
    from Cons.IH [OF this] True show ?thesis by (simp add: add.commute)
  next
    case not_open: False
    show ?thesis
    proof (cases "c = CHR ''}''")
      case True
      with Cons.prems have k: "0 < k" and "never_closed cs (k - 1)" by simp_all
      from Cons.IH [OF this(2)] k have "closing_index cs (int k) = None"
        by (simp add: of_nat_diff)
      with True k show ?thesis by simp
    next
      case False
      with not_open Cons.prems have "never_closed cs k" by simp
      from Cons.IH [OF this] not_open False show ?thesis by simp
    qed
  qed
qed

lemma extract_balanced_content_balanced:
  assumes "balanced body"
  shows "extract_balanced_content (pre @ CHR ''{'' # body @ CHR ''}'' # rest) (length pre) = body"
proof -
  let ?text = "pre @ CHR ''{'' # body @ CHR ''}'' # rest"
  from assms have "closing_index (body @ CHR ''}'' # rest) (int 0 + 1) = Some (length body)"
    unfolding balanced_def by (rule closing_index_nested_ok)
  then have "closing_index (drop (length pre) ?text) 0 = Some (Suc (length body))"
    by simp
  then have "balanced_loop ?text (length pre) 0 (length pre) = body"
    by (simp add: balanced_loop_closing_index)
  then show ?thesis by (simp add: extract_balanced_content_def)
qed

lemma extract_balanced_content_never_closed:
  assumes "never_closed body 0"
  shows "extract_balanced_content (pre @ CHR ''{'' # body) (length pre) = []"
proof -
  let ?text = "pre @ CHR ''{'' # body"
  from assms have "closing_index body (int 0 + 1) = None"
    by (rule closing_index_never_closed)
  then have "closing_index (drop (length pre) ?text) 0 = None"
    by simp
  then have "balanced_loop ?text (length pre) 0 (length pre) = []"
    by (simp add: balanced_loop_closing_index)
  then show ?thesis by (simp add: extract_balanced_content_def)
qed

lemma re_search_first:
  "\<lbrakk>\<forall>i<n. r (drop i s) = None; n \<le> length s; r (drop n s) = Some (g, rest);
    length rest \<le> length s - n\<rbrakk>
   \<Longrightarrow> re_search r s = Some (g, length s - length rest)"
proof (induction s arbitrary: n)
  case Nil
  then show ?case by simp
next
  case (Cons c cs)
  show ?case
  proof (cases n)
    case 0
    with Cons.prems show ?thesis by simp
  next
    case (Suc m)
    with Cons.prems have r0: "r (c # cs) = None" by (metis drop0 zero_less_Suc)
    from Cons.prems Suc have "\<forall>i<m. r (drop i cs) = None"
      by (metis Suc_less_eq drop_Suc_Cons)
    moreover from Cons.prems Suc have "m \<le> length cs" "r (drop m cs) = Some (g, rest)"
      "length rest \<le> length cs - m" by simp_all
    ultimately have "re_search r cs = Some (g, length cs - length rest)" by (rule Cons.IH)
    moreover from \<open>length rest \<le> length cs - m\<close> \<open>m \<le> length cs\<close>
    have "Suc (length cs - length rest) = length (c # cs) - length rest" by simp
    ultimately show ?thesis using r0 by simp
  qed
qed

lemma re_search_None_iff:
  "re_search r s = None \<longleftrightarrow> (\<forall>i\<le>length s. r (drop i s) = None)"
proof (induction s)
  case Nil
  then show ?case by (auto split: option.splits)
next
  case (Cons c cs)
  have "(\<forall>i\<le>length (c # cs). r (drop i (c # cs)) = None)
        \<longleftrightarrow> r (c # cs) = None \<and> (\<forall>i\<le>length cs. r (drop i cs) = None)"
  proof
    assume a: "\<forall>i\<le>length (c # cs). r (drop i (c # cs)) = None"
    then have "r (c # cs) = None" by (metis drop0 le0)
    moreover have "\<forall>i\<le>length cs. r (drop i cs) = None"
    proof (intro allI impI)
      fix i assume "i \<le> length cs"
      then have "Suc i \<le> length (c # cs)" by simp
      with a have "r (drop (Suc i) (c # cs)) = None" by blast
      then show "r (drop i cs) = None" by simp
    qed
    ultimately show "r (c # cs) = None \<and> (\<forall>i\<le>length cs. r (drop i cs) = None)" by blast
  next
    assume a: "r (c # cs) = None \<and> (\<forall>i\<le>length cs. r (drop i cs) = None)"
    show "\<forall>i\<le>length (c # cs). r (drop i (c # cs)) = None"
    proof (intro allI impI)
      fix i assume "i \<le> length (c # cs)"
      then show "r (drop i (c # cs)) = None" using a by (cases i) simp_all
    qed
  qed
  with Cons.IH show ?case by (auto split: option.splits)
qed


lemma re_search_Some:
  assumes "consuming r"
  shows "re_search r s = Some (g, e) \<Longrightarrow>
   \<exists>i. i < e \<and> e \<le> length s \<and> (\<forall>j<i. r (drop j s) = None) \<and> r (drop i s) = Some (g, drop e s)"
proof (induction s arbitrary: e)
  case Nil
  then obtain rest where "r [] = Some (g, rest)" by (auto split: option.splits)
  with assms show ?case unfolding consuming_def by fastforce
next
  case (Cons c cs)
  show ?case
  proof (cases "r (c # cs)")
    case (Some m)
    with Cons.prems obtain rest where m: "r (c # cs) = Some (g, rest)"
      and e: "e = length (c # cs) - length rest" by (cases m) auto
    from assms m obtain n where n: "0 < n" "n \<le> length (c # cs)" "rest = drop n (c # cs)"
      unfolding consuming_def by blast
    then have "e = n" using e by simp
    with n m show ?thesis by (intro exI [of _ 0]) simp
  next
    case None
    with Cons.prems obtain e' where s: "re_search r cs = Some (g, e')" and e: "e = Suc e'"
      by (auto split: option.splits)
    from Cons.IH [OF s] obtain i where i: "i < e'" "e' \<le> length cs"
      "\<forall>j<i. r (drop j cs) = None" "r (drop i cs) = Some (g, drop e' cs)"
      by blast
    have "\<forall>j<Suc i. r (drop j (c # cs)) = None"
    proof (intro allI impI)
      fix j assume "j < Suc i"
      then show "r (drop j (c # cs)) = None" using None i(3) by (cases j) simp_all
    qed
    with i e show ?thesis by (intro exI [of _ "Suc i"]) simp
  qed
qed

lemma lit_Some: "lit p s = Some r \<Longrightarrow> s = p @ r"
  by (auto simp: lit_def split: if_splits) (metis append_take_drop_id)

lemma lit_append: "lit p (p @ r) = Some r"
  by (simp add: lit_def)

lemma spaces1_Some:
  "spaces1 s = Some r \<Longrightarrow> \<exists>ws. ws \<noteq> [] \<and> list_all is_space ws \<and> s = ws @ r"
proof -
  assume a: "spaces1 s = Some r"
  then obtain c cs where s: "s = c # cs" and c: "is_space c" and r: "r = dropWhile is_space cs"
    by (auto simp: spaces1_def split: list.splits if_splits)
  have "s = (c # takeWhile is_space cs) @ r" using s r by simp
  moreover have "list_all is_space (c # takeWhile is_space cs)"
    using c by (auto simp: list_all_iff dest: set_takeWhileD)
  ultimately show ?thesis by blast
qed

lemma dropWhile_all_append:
  "list_all P ws \<Longrightarrow> dropWhile P (ws @ r) = dropWhile P r"
  by (induction ws) simp_all

lemma spaces1_append:
  "\<lbrakk>ws \<noteq> []; list_all is_space ws; r = [] \<or> \<not> is_space (hd r)\<rbrakk> \<Longrightarrow> spaces1 (ws @ r) = Some r"
  by (cases ws; cases r) (auto simp: spaces1_def dropWhile_all_append list_all_iff)

lemma spaces0_append:
  "\<lbrakk>list_all is_space ws; r = [] \<or> \<not> is_space (hd r)\<rbrakk> \<Longrightarrow> spaces0 (ws @ r) = r"
  by (cases r) (auto simp: spaces0_def dropWhile_all_append list_all_iff)

lemma spaces0_decomp: "\<exists>ws. list_all is_space ws \<and> s = ws @ spaces0 s"
proof -
  have "s = takeWhile is_space s @ spaces0 s" by (simp add: spaces0_def)
  moreover have "list_all is_space (takeWhile is_space s)"
    by (auto simp: list_all_iff dest: set_takeWhileD)
  ultimately show ?thesis by blast
qed

lemma quoted_Some:
  assumes a: "quoted s = Some (v, r)"
  shows "s = CHR 0x22 # v @ CHR 0x22 # r \<and> v \<noteq> [] \<and> CHR 0x22 \<notin> set v"
proof (cases s)
  case Nil
  with a show ?thesis by (simp add: quoted_def)
next
  case (Cons c cs)
  define d where "d = dropWhile (\<lambda>x. x \<noteq> CHR 0x22) cs"
  define w where "w = takeWhile (\<lambda>x. x \<noteq> CHR 0x22) cs"
  have q: "(if c \<noteq> CHR 0x22 then None
            else if w = [] \<or> d = [] then None else Some (w, tl d)) = Some (v, r)"
    using a unfolding Cons quoted_def Let_def d_def w_def by (simp only: list.case)
  then have c: "c = CHR 0x22" by (cases "c = CHR 0x22") simp_all
  with q have wd: "w \<noteq> [] \<and> d \<noteq> []" by (cases "w = [] \<or> d = []") simp_all
  with q c have v: "v = w" and r: "r = tl d" by simp_all
  from wd have dne: "dropWhile (\<lambda>x. x \<noteq> CHR 0x22) cs \<noteq> []" by (simp add: d_def)
  have "hd d = CHR 0x22" using hd_dropWhile [OF dne] by (simp add: d_def)
  with wd r have "d = CHR 0x22 # r" by (cases d) simp_all
  then have "cs = v @ CHR 0x22 # r"
    using takeWhile_dropWhile_id [of "\<lambda>x. x \<noteq> CHR 0x22" cs] v by (simp add: d_def w_def)
  moreover have "CHR 0x22 \<notin> set v" unfolding v w_def by (auto dest: set_takeWhileD)
  ultimately show ?thesis using Cons c v wd by simp
qed

lemma re_named_open_Some:
  assumes "re_named_open kw s = Some (name, r)"
  shows "\<exists>ws1 ws2. s = kw @ ws1 @ CHR 0x22 # name @ CHR 0x22 # ws2 @ CHR ''{'' # r
           \<and> ws1 \<noteq> [] \<and> list_all is_space ws1 \<and> list_all is_space ws2
           \<and> name \<noteq> [] \<and> CHR 0x22 \<notin> set name"
proof -
  from assms obtain s1 s2 s3 where
    1: "lit kw s = Some s1" and 2: "spaces1 s1 = Some s2" and 3: "quoted s2 = Some (name, s3)"
    and 4: "lit ''{'' (spaces0 s3) = Some r"
    by (auto simp: re_named_open_def split: Option.bind_splits)
  from spaces1_Some [OF 2] obtain ws1 where ws1: "ws1 \<noteq> []" "list_all is_space ws1" "s1 = ws1 @ s2"
    by blast
  from spaces0_decomp [of s3] obtain ws2 where ws2: "list_all is_space ws2" "s3 = ws2 @ spaces0 s3"
    by blast
  from lit_Some [OF 4] have "spaces0 s3 = CHR ''{'' # r" by simp
  with ws2 have "s3 = ws2 @ CHR ''{'' # r" by simp
  with lit_Some [OF 1] ws1 quoted_Some [OF 3] ws2(1) show ?thesis by auto
qed

lemma re_block_open_Some:
  assumes "re_block_open kw s = Some (u, r)"
  shows "\<exists>ws. s = kw @ ws @ CHR ''{'' # r \<and> list_all is_space ws"
proof -
  from assms obtain s1 where 1: "lit kw s = Some s1" and 2: "lit ''{'' (spaces0 s1) = Some r"
    by (auto simp: re_block_open_def split: Option.bind_splits)
  from spaces0_decomp [of s1] obtain ws where ws: "list_all is_space ws" "s1 = ws @ spaces0 s1"
    by blast
  from lit_Some [OF 2] have "spaces0 s1 = CHR ''{'' # r" by simp
  with ws lit_Some [OF 1] show ?thesis by auto
qed

lemma not_space_brace: "\<not> is_space (CHR ''{'')"
  by (simp add: is_space_def)

lemma re_block_open_append:
  "list_all is_space ws \<Longrightarrow> re_block_open kw (kw @ ws @ CHR ''{'' # r) = Some ((), r)"
  by (simp add: re_block_open_def lit_append spaces0_append not_space_brace lit_def)

lemma consuming_witness:
  "\<lbrakk>s = p @ rest; p \<noteq> []\<rbrakk> \<Longrightarrow> \<exists>n. 0 < n \<and> n \<le> length s \<and> rest = drop n s"
  by (intro exI [of _ "length p"]) simp

lemma consuming_re_named_open: "consuming (re_named_open kw)"
  unfolding consuming_def
proof (intro allI impI)
  fix s g rest assume "re_named_open kw s = Some (g, rest)"
  from re_named_open_Some [OF this] obtain ws1 ws2 where
    s: "s = kw @ ws1 @ CHR 0x22 # g @ CHR 0x22 # ws2 @ CHR ''{'' # rest" by blast
  have "s = (kw @ ws1 @ CHR 0x22 # g @ CHR 0x22 # ws2 @ [CHR ''{'']) @ rest" using s by simp
  then show "\<exists>n. 0 < n \<and> n \<le> length s \<and> rest = drop n s"
    by (rule consuming_witness) simp
qed

lemma consuming_re_block_open: "consuming (re_block_open kw)"
  unfolding consuming_def
proof (intro allI impI)
  fix s g rest assume "re_block_open kw s = Some (g, rest)"
  from re_block_open_Some [OF this] obtain ws where
    s: "s = kw @ ws @ CHR ''{'' # rest" by blast
  have "s = (kw @ ws @ [CHR ''{'']) @ rest" using s by simp
  then show "\<exists>n. 0 < n \<and> n \<le> length s \<and> rest = drop n s"
    by (rule consuming_witness) simp
qed

lemma drop_split_index:
  assumes d: "drop i s = q @ c # drop e s" and e: "e \<le> length s"
  shows "e = i + length q + 1 \<and> s ! (e - 1) = c \<and> i < length s"
proof -
  have "length (drop i s) = length (q @ c # drop e s)" using d by simp
  then have l: "length s - i = length q + 1 + (length s - e)" by simp
  with e have eq: "e = i + length q + 1" by arith
  from l have i: "i + length q < length s" by arith
  have "s ! (i + length q) = drop i s ! length q" using i by simp
  also have "\<dots> = c" unfolding d by simp
  finally show ?thesis using eq i by simp
qed

lemma re_search_named_open:
  assumes "re_search (re_named_open kw) s = Some (name, e)"
  shows "0 < e \<and> e \<le> length s \<and> s ! (e - 1) = CHR ''{''
         \<and> (\<exists>i<e. re_named_open kw (drop i s) = Some (name, drop e s))"
proof -
  from re_search_Some [OF consuming_re_named_open assms] obtain i where
    i: "i < e" "e \<le> length s" "re_named_open kw (drop i s) = Some (name, drop e s)" by blast
  from re_named_open_Some [OF i(3)] obtain ws1 ws2 where
    "drop i s = kw @ ws1 @ CHR 0x22 # name @ CHR 0x22 # ws2 @ CHR ''{'' # drop e s" by blast
  then have "drop i s = (kw @ ws1 @ CHR 0x22 # name @ CHR 0x22 # ws2) @ CHR ''{'' # drop e s"
    by simp
  from drop_split_index [OF this i(2)] have "s ! (e - 1) = CHR ''{''" by blast
  with i show ?thesis by auto
qed

lemma re_search_block_open:
  assumes "re_search (re_block_open kw) s = Some (u, e)"
  shows "0 < e \<and> e \<le> length s \<and> s ! (e - 1) = CHR ''{''
         \<and> (\<exists>i<e. re_block_open kw (drop i s) = Some (u, drop e s))"
proof -
  from re_search_Some [OF consuming_re_block_open assms] obtain i where
    i: "i < e" "e \<le> length s" "re_block_open kw (drop i s) = Some (u, drop e s)" by blast
  from re_block_open_Some [OF i(3)] obtain ws where
    "drop i s = kw @ ws @ CHR ''{'' # drop e s" by blast
  then have "drop i s = (kw @ ws) @ CHR ''{'' # drop e s"
    by simp
  from drop_split_index [OF this i(2)] have "s ! (e - 1) = CHR ''{''" by blast
  with i show ?thesis by auto
qed

lemma named_entries_Nil:
  "re_search (re_named_open kw) (drop pos t) = None \<Longrightarrow> named_entries kw t pos = []"
  by (subst named_entries.simps) simp

lemma named_entries_Cons:
  "re_search (re_named_open kw) (drop pos t) = Some (name, e) \<Longrightarrow>
   named_entries kw t pos =
     (pos + e - 1, name, extract_balanced_content t (pos + e - 1))
       # named_entries kw t (pos + e - 1 + length (extract_balanced_content t (pos + e - 1)) + 2)"
  by (subst named_entries.simps) (simp add: Let_def)

lemma entry_at_mono:
  assumes "entry_at kw t pos' entry" and "pos \<le> pos'"
  shows "entry_at kw t pos entry"
proof -
  obtain sp name props where entry: "entry = (sp, name, props)" by (cases entry)
  from assms(1) obtain i where
    a: "pos' \<le> sp" "sp < length t" "t ! sp = CHR ''{''" "props = extract_balanced_content t sp"
    and i: "pos' \<le> i" "i \<le> sp" "re_named_open kw (drop i t) = Some (name, drop (Suc sp) t)"
    unfolding entry entry_at_def by auto
  from i assms(2) have "\<exists>i. pos \<le> i \<and> i \<le> sp
      \<and> re_named_open kw (drop i t) = Some (name, drop (Suc sp) t)"
    by (intro exI [of _ i]) simp
  with a assms(2) show ?thesis unfolding entry entry_at_def by simp
qed

lemma named_entries_step:
  assumes "re_search (re_named_open kw) (drop pos t) = Some (name, e)"
  shows "entry_at kw t pos (pos + e - 1, name, extract_balanced_content t (pos + e - 1))"
proof -
  from re_search_named_open [OF assms] obtain i where
    e: "0 < e" "e \<le> length (drop pos t)" "drop pos t ! (e - 1) = CHR ''{''"
    and i: "i < e" "re_named_open kw (drop i (drop pos t)) = Some (name, drop e (drop pos t))"
    by blast
  from e have lt: "pos + e - 1 < length t" by simp
  from e have "pos + (e - 1) < length t" by simp
  then have "t ! (pos + (e - 1)) = drop pos t ! (e - 1)" by simp
  with e have br: "t ! (pos + e - 1) = CHR ''{''" by simp
  from e have S: "Suc (pos + e - 1) = pos + e" by simp
  have "re_named_open kw (drop (pos + i) t) = Some (name, drop (Suc (pos + e - 1)) t)"
    using i(2) unfolding S by (simp add: add.commute)
  moreover have "pos \<le> pos + i" "pos + i \<le> pos + e - 1" using i(1) by simp_all
  ultimately have "\<exists>j. pos \<le> j \<and> j \<le> pos + e - 1
      \<and> re_named_open kw (drop j t) = Some (name, drop (Suc (pos + e - 1)) t)" by blast
  with lt br e(1) show ?thesis unfolding entry_at_def by simp
qed

lemma named_entries_entry_at:
  "entry \<in> set (named_entries kw t pos) \<Longrightarrow> entry_at kw t pos entry"
proof (induction kw t pos rule: named_entries.induct)
  case (1 kw t pos)
  show ?case
  proof (cases "re_search (re_named_open kw) (drop pos t)")
    case None
    with "1.prems" show ?thesis by (simp add: named_entries_Nil)
  next
    case (Some m)
    obtain name e where m: "m = (name, e)" by (cases m)
    let ?sp = "pos + e - 1"
    let ?props = "extract_balanced_content t ?sp"
    from Some m have s: "re_search (re_named_open kw) (drop pos t) = Some (name, e)" by simp
    from "1.prems" named_entries_Cons [OF s]
    consider "entry = (?sp, name, ?props)"
      | "entry \<in> set (named_entries kw t (?sp + length ?props + 2))" by auto
    then show ?thesis
    proof cases
      case 1
      then show ?thesis using named_entries_step [OF s] by simp
    next
      case 2
      from "1.IH" [OF s refl refl refl 2]
      have "entry_at kw t (?sp + length ?props + 2) entry" .
      moreover from re_search_named_open [OF s] have "pos \<le> ?sp + length ?props + 2" by simp
      ultimately show ?thesis by (rule entry_at_mono)
    qed
  qed
qed

lemma named_entries_sorted:
  "sorted_wrt (<) (map fst (named_entries kw t pos))"
proof (induction kw t pos rule: named_entries.induct)
  case (1 kw t pos)
  show ?case
  proof (cases "re_search (re_named_open kw) (drop pos t)")
    case None
    then show ?thesis by (simp add: named_entries_Nil)
  next
    case (Some m)
    obtain name e where m: "m = (name, e)" by (cases m)
    let ?sp = "pos + e - 1"
    let ?props = "extract_balanced_content t ?sp"
    from Some m have s: "re_search (re_named_open kw) (drop pos t) = Some (name, e)" by simp
    have later: "?sp < fst entry" if "entry \<in> set (named_entries kw t (?sp + length ?props + 2))"
      for entry
    proof -
      from named_entries_entry_at [OF that] have "?sp + length ?props + 2 \<le> fst entry"
        by (cases entry) (simp add: entry_at_def)
      then show ?thesis by simp
    qed
    from "1.IH" [OF s refl refl refl]
    have "sorted_wrt (<) (map fst (named_entries kw t (?sp + length ?props + 2)))" .
    with later show ?thesis unfolding named_entries_Cons [OF s] by auto
  qed
qed

lemma for_each_Inr_iff:
  "for_each f xs = Inr ys \<longleftrightarrow> list_all2 (\<lambda>x y. f x = Inr y) xs ys"
proof (induction xs arbitrary: ys)
  case Nil
  then show ?case by auto
next
  case (Cons x xs)
  show ?case
  proof (cases "f x")
    case (Inl e)
    then show ?thesis by (auto simp: list_all2_Cons1)
  next
    case (Inr y)
    show ?thesis
    proof (cases "for_each f xs")
      case (Inl e)
      with Inr Cons.IH show ?thesis by (auto simp: list_all2_Cons1)
    next
      case inr: (Inr zs)
      with Inr Cons.IH show ?thesis by (auto simp: list_all2_Cons1)
    qed
  qed
qed

lemma for_each_isl: "isl (for_each f xs) \<longleftrightarrow> (\<exists>x\<in>set xs. isl (f x))"
proof (induction xs)
  case Nil
  then show ?case by simp
next
  case (Cons x xs)
  then show ?case by (cases "f x"; cases "for_each f xs") auto
qed

lemma for_each_Inl: "for_each f xs = Inl e \<Longrightarrow> \<exists>x\<in>set xs. f x = Inl e"
proof (induction xs)
  case Nil
  then show ?case by simp
next
  case (Cons x xs)
  then show ?case by (cases "f x"; cases "for_each f xs") auto
qed

lemma foldl_add_beneficiary:
  "foldl (\<lambda>config ben_data. add_beneficiary config (build_beneficiary ben_data)) c bs
     = c\<lparr>beneficiaries := beneficiaries c @ map build_beneficiary bs\<rparr>"
  by (induction bs arbitrary: c) (simp_all add: add_beneficiary_def)

lemma foldl_add_funding_source:
  "foldl (\<lambda>config source_data. add_funding_source config (build_source source_data)) c ss
     = c\<lparr>funding_sources := funding_sources c @ map build_source ss\<rparr>"
  by (induction ss arbitrary: c) (simp_all add: add_funding_source_def)

lemma foldl_add_tier:
  "foldl add_tier c ts = c\<lparr>tiers := tiers c @ ts\<rparr>"
  by (induction ts arbitrary: c) (simp_all add: add_tier_def)

lemma foldl_add_goal:
  "foldl (\<lambda>config goal_data. add_goal config (build_goal goal_data)) c gs
     = c\<lparr>goals := goals c @ map build_goal gs\<rparr>"
  by (induction gs arbitrary: c) (simp_all add: add_goal_def)

lemma build_configuration_eq:
  "build_configuration cd =
     (case for_each build_tier (cd_tiers cd) of
        Inl e \<Rightarrow> Inl e
      | Inr ts \<Rightarrow> Inr (built_configuration cd ts))"
  unfolding build_configuration_def built_configuration_def Let_def
    foldl_add_beneficiary foldl_add_funding_source foldl_add_tier foldl_add_goal
  by (cases "for_each build_tier (cd_tiers cd)")
     (simp_all add: dict_get_def split: option.split)

end
